theory Spec2Isabelle
  imports Complex_Main
begin

section \<open>Piecewise-linear trees (psychsim.pwl)\<close>

text \<open>
  Modelled from the spec: the module \<^verbatim>\<open>psychsim.pwl\<close> (keys, rows, matrices,
  \<^verbatim>\<open>makeTree\<close>) is imported by every source file but is not among them. The
  data model of the specification gives what is needed here: a Key is an opaque
  identifier naming a state feature, a reward slot or a model pointer; a StateVector maps
  keys to numeric or enumerated values and evaluation at an unknown key fails; a
  SymbolicTree is a leaf or a branch on a predicate with both children present. The
  constructors below carry the names of the \<^verbatim>\<open>pwl\<close> functions the sources call,
  so that each tree of the sources is written down as the source writes it. Python
  floats are taken as exact reals.
\<close>

datatype key = stateKey string string | rewardKey string | modelKey string

datatype val = Num real | Sym string | Flag bool

type_synonym StateVector = "key \<rightharpoonup> val"

datatype plane =
    equalRow key val
  | trueRow key
  | falseRow key
  | greaterThanRow key key

datatype matrix =
    setToConstantMatrix key val
  | setToFeatureMatrix key key real
  | incrementMatrix key real
  | dynamicsMatrix key "(key \<times> real) list"

text \<open>
  The argument of \<^verbatim>\<open>makeTree\<close>: either a leaf, or a dictionary with the entries
  \<^verbatim>\<open>'if'\<close>, \<^verbatim>\<open>True\<close> and \<^verbatim>\<open>False\<close>. Every dictionary literal
  of the sources has all three entries.
\<close>

datatype 'a treespec = Terminal 'a | IfDict plane "'a treespec" "'a treespec"

datatype 'a KeyedTree = Leaf 'a | Branch plane "'a KeyedTree" "'a KeyedTree"

fun makeTree :: "'a treespec \<Rightarrow> 'a KeyedTree" where
  "makeTree (Terminal x) = Leaf x"
| "makeTree (IfDict p t f) = Branch p (makeTree t) (makeTree f)"

datatype error =
    MalformedTreeError
  | DomainError
  | IllegalActionError
  | BeliefCollapseError

text \<open>
  Modelled from the spec: a predicate is a pure function of the StateVector (equality and
  ordering comparisons between keys and constants), and evaluation at a key the vector
  does not hold fails.
\<close>

fun test_plane :: "plane \<Rightarrow> StateVector \<Rightarrow> error + bool" where
  "test_plane (equalRow k v) s =
     (case s k of None \<Rightarrow> Inl MalformedTreeError | Some x \<Rightarrow> Inr (x = v))"
| "test_plane (trueRow k) s =
     (case s k of None \<Rightarrow> Inl MalformedTreeError | Some x \<Rightarrow> Inr (x = Flag True))"
| "test_plane (falseRow k) s =
     (case s k of None \<Rightarrow> Inl MalformedTreeError | Some x \<Rightarrow> Inr (x = Flag False))"
| "test_plane (greaterThanRow k1 k2) s =
     (case (s k1, s k2) of
        (Some (Num a), Some (Num b)) \<Rightarrow> Inr (b < a)
      | _ \<Rightarrow> Inl MalformedTreeError)"

text \<open>
  Modelled from the spec: \<^verbatim>\<open>evaluate(tree, state)\<close> is one deterministic pass from
  the root to a leaf.
\<close>

fun evaluate :: "'a KeyedTree \<Rightarrow> StateVector \<Rightarrow> error + 'a" where
  "evaluate (Leaf x) s = Inr x"
| "evaluate (Branch p t f) s =
     (case test_plane p s of
        Inl e \<Rightarrow> Inl e
      | Inr b \<Rightarrow> if b then evaluate t s else evaluate f s)"

section \<open>Reward trees (psychsim/reward.py)\<close>

text \<open>
  \<^verbatim>\<open>achieve_feature_value(key, value, agent)\<close> and its camelCase wrapper, which
  passes its three arguments on unchanged.
\<close>

definition achieve_feature_value :: "key \<Rightarrow> val \<Rightarrow> string \<Rightarrow> matrix KeyedTree" where
  "achieve_feature_value k v agent =
     makeTree (IfDict (equalRow k v)
                 (Terminal (setToConstantMatrix (rewardKey agent) (Num 1)))
                 (Terminal (setToConstantMatrix (rewardKey agent) (Num 0))))"

definition achieveFeatureValue :: "key \<Rightarrow> val \<Rightarrow> string \<Rightarrow> matrix KeyedTree" where
  "achieveFeatureValue k v agent = achieve_feature_value k v agent"

text \<open>
  \<^verbatim>\<open>achieve_goal(key, agent, invert=False)\<close>: the third argument is optional and
  \<^verbatim>\<open>False\<close> when the caller leaves it out, so it is an option here. The wrapper
  \<^verbatim>\<open>achieveGoal\<close> has the same default and always passes a third argument on.
\<close>

definition invert_default :: "bool option \<Rightarrow> bool" where
  "invert_default invert = (case invert of None \<Rightarrow> False | Some b \<Rightarrow> b)"

definition achieve_goal :: "key \<Rightarrow> string \<Rightarrow> bool option \<Rightarrow> matrix KeyedTree" where
  "achieve_goal k agent invert =
     makeTree (IfDict (if invert_default invert then falseRow k else trueRow k)
                 (Terminal (setToConstantMatrix (rewardKey agent) (Num 1)))
                 (Terminal (setToConstantMatrix (rewardKey agent) (Num 0))))"

definition achieveGoal :: "key \<Rightarrow> string \<Rightarrow> bool option \<Rightarrow> matrix KeyedTree" where
  "achieveGoal k agent invert = achieve_goal k agent (Some (invert_default invert))"

section \<open>The prisoner's dilemma world (examples/forward_planning_tom.py)\<close>

definition NOT_DECIDED :: string where "NOT_DECIDED = ''none''"
definition DEFECTED :: string where "DEFECTED = ''defected''"
definition COOPERATED :: string where "COOPERATED = ''cooperated''"

text \<open>The payoff parameters of the script; Python integers, held as reals in a \<open>val\<close>.\<close>

definition SUCKER :: real where "SUCKER = - 3"
definition TEMPTATION :: real where "TEMPTATION = 0"
definition MUTUAL_COOP :: real where "MUTUAL_COOP = - 1"
definition PUNISHMENT :: real where "PUNISHMENT = - 2"
definition INVALID :: real where "INVALID = - 10000"

text \<open>
  \<^verbatim>\<open>get_reward_tree(agent, my_dec, other_dec)\<close>: the payoff matrix as a tree. The
  first argument is the agent's name, the only field of the agent the function reads.
\<close>

definition get_reward_tree :: "string \<Rightarrow> key \<Rightarrow> key \<Rightarrow> matrix KeyedTree" where
  "get_reward_tree name my_d other_d =
     (let reward_key = rewardKey name in
      makeTree
        (IfDict (equalRow my_d (Sym NOT_DECIDED))
           (Terminal (setToConstantMatrix reward_key (Num INVALID)))
           (IfDict (equalRow other_d (Sym NOT_DECIDED))
              (Terminal (setToConstantMatrix reward_key (Num INVALID)))
              (IfDict (equalRow my_d (Sym COOPERATED))
                 (IfDict (equalRow other_d (Sym COOPERATED))
                    (Terminal (setToConstantMatrix reward_key (Num MUTUAL_COOP)))
                    (Terminal (setToConstantMatrix reward_key (Num SUCKER))))
                 (IfDict (equalRow other_d (Sym COOPERATED))
                    (Terminal (setToConstantMatrix reward_key (Num TEMPTATION)))
                    (Terminal (setToConstantMatrix reward_key (Num PUNISHMENT))))))))"

definition agents :: "string list" where
  "agents = [''Agent 1'', ''Agent 2'']"

text \<open>
  \<^verbatim>\<open>world.defineState(agent.name, 'decision', ...)\<close> returns the key of the agent's
  feature; the script collects the two keys in \<^verbatim>\<open>agents_dec\<close>, and in its second
  loop agent \<open>i\<close> reads its own key at index \<open>i\<close> and the other's at index
  \<^verbatim>\<open>0 if i == 1 else 1\<close>.
\<close>

definition agents_dec :: "key list" where
  "agents_dec = map (\<lambda>name. stateKey name ''decision'') agents"

definition my_dec :: "nat \<Rightarrow> key" where
  "my_dec i = agents_dec ! i"

definition other_dec :: "nat \<Rightarrow> key" where
  "other_dec i = agents_dec ! (if i = 1 then 0 else 1)"

text \<open>The legality tree given to \<^verbatim>\<open>addAction\<close> with the action "defect".\<close>

definition defect_legal :: "nat \<Rightarrow> bool KeyedTree" where
  "defect_legal i =
     makeTree (IfDict (equalRow (other_dec i) (Sym COOPERATED))
                 (IfDict (equalRow (my_dec i) (Sym DEFECTED))
                    (Terminal True)
                    (Terminal False))
                 (Terminal True))"

text \<open>The legality tree given to \<^verbatim>\<open>addAction\<close> with the action "cooperate".\<close>

definition cooperate_legal :: "nat \<Rightarrow> bool KeyedTree" where
  "cooperate_legal i =
     makeTree (IfDict (equalRow (other_dec i) (Sym DEFECTED))
                 (Terminal False)
                 (IfDict (equalRow (my_dec i) (Sym DEFECTED))
                    (Terminal False)
                    (Terminal True)))"

text \<open>The actions of agent \<open>i\<close> in the order the script adds them, each with its tree.\<close>

definition pd_actions :: "nat \<Rightarrow> (string \<times> bool KeyedTree) list" where
  "pd_actions i = [(''defect'', defect_legal i), (''cooperate'', cooperate_legal i)]"

text \<open>
  Modelled from the spec: the first step of \<^verbatim>\<open>decide\<close> (the planner is not among
  the sources) enumerates the actions whose legality tree evaluates to true at the state
  and fails with \<^verbatim>\<open>IllegalActionError\<close> if there is none; no action is made up.
  A legality tree that cannot be evaluated fails with its own error.
\<close>

fun legal_names :: "(string \<times> bool KeyedTree) list \<Rightarrow> StateVector \<Rightarrow> error + string list" where
  "legal_names [] s = Inr []"
| "legal_names ((a, t) # rest) s =
     (case evaluate t s of
        Inl e \<Rightarrow> Inl e
      | Inr b \<Rightarrow>
          (case legal_names rest s of
             Inl e \<Rightarrow> Inl e
           | Inr as \<Rightarrow> Inr (if b then a # as else as)))"

definition legal_actions :: "(string \<times> bool KeyedTree) list \<Rightarrow> StateVector \<Rightarrow> error + string list" where
  "legal_actions acts s =
     (case legal_names acts s of
        Inl e \<Rightarrow> Inl e
      | Inr as \<Rightarrow> if as = [] then Inl IllegalActionError else Inr as)"

text \<open>
  A StateVector that holds the two decision features, as the script's
  \<^verbatim>\<open>world.setFeature(dec, ...)\<close> calls leave it.
\<close>

definition pd_state :: "string \<Rightarrow> string \<Rightarrow> StateVector" where
  "pd_state d1 d2 = [agents_dec ! 0 \<mapsto> Sym d1, agents_dec ! 1 \<mapsto> Sym d2]"

section \<open>Distributions and belief update (psychsim.probability, psychsim.agent)\<close>

text \<open>
  Modelled from the spec: the class \<^verbatim>\<open>Distribution\<close> of
  \<^verbatim>\<open>psychsim.probability\<close> is constructed by both example scripts but is not
  among the sources. The specification gives it as a mapping from outcomes to
  probability mass over a finite outcome set. It is a list of outcome and mass pairs
  here, in the order of the dictionary the scripts pass; masses are exact reals, not
  floating-point numbers.
\<close>

type_synonym 'a Distribution = "('a \<times> real) list"

definition total_mass :: "'a Distribution \<Rightarrow> real" where
  "total_mass d = sum_list (map snd d)"

definition mass :: "'a Distribution \<Rightarrow> 'a \<Rightarrow> real" where
  "mass d x = (case map_of d x of None \<Rightarrow> 0 | Some p \<Rightarrow> p)"

text \<open>
  Modelled from the spec: "total mass is ~0". The specification names no tolerance, so
  it is the parameter \<open>eps\<close> of everything below.
\<close>

definition approx_zero :: "real \<Rightarrow> real \<Rightarrow> bool" where
  "approx_zero eps t = (\<bar>t\<bar> \<le> eps)"

text \<open>
  Modelled from the spec: \<^verbatim>\<open>normalize()\<close> rescales to sum 1 and fails with
  \<^verbatim>\<open>DomainError\<close> if any mass is negative or the total mass is ~0.
\<close>

definition normalize_dist :: "real \<Rightarrow> 'a Distribution \<Rightarrow> error + 'a Distribution" where
  "normalize_dist eps d =
     (if list_ex (\<lambda>(x, p). p < 0) d \<or> approx_zero eps (total_mass d)
      then Inl DomainError
      else Inr (map (\<lambda>(x, p). (x, p / total_mass d)) d))"







section \<open>The "distribution" selection policy (psychsim.agent)\<close>

text \<open>
  Modelled from the spec: the last step of \<^verbatim>\<open>decide\<close> under the selection policy
  \<^verbatim>\<open>"distribution"\<close> (the planner is not among the sources) returns a Distribution
  over the legal actions proportional to \<^verbatim>\<open>exp(rationality * value(a))\<close>. The
  argument \<open>vals\<close> lists the legal actions with their values; being a Distribution, the
  result is the weights divided by their sum.
\<close>

definition softmax_weights :: "real \<Rightarrow> ('a \<times> real) list \<Rightarrow> ('a \<times> real) list" where
  "softmax_weights rationality vals = map (\<lambda>(a, v). (a, exp (rationality * v))) vals"

definition softmax :: "real \<Rightarrow> ('a \<times> real) list \<Rightarrow> 'a Distribution" where
  "softmax rationality vals =
     map (\<lambda>(a, w). (a, w / total_mass (softmax_weights rationality vals)))
       (softmax_weights rationality vals)"

section \<open>The belief of the learner (examples/multiagent\_modeling.py)\<close>




section \<open>The wrappers of reward.py\<close>

text \<open>
  C10. The camelCase wrappers return the trees of the snake\_case functions:
  \<^verbatim>\<open>achieveFeatureValue(key, value, agent)\<close> is
  \<^verbatim>\<open>achieve_feature_value(key, value, agent)\<close>, and
  \<^verbatim>\<open>achieveGoal(key, agent, invert)\<close> is \<^verbatim>\<open>achieve_goal(key, agent, invert)\<close>,
  whether \<^verbatim>\<open>invert\<close> is given or left to its default.
\<close>

theorem wrappers_equal_implementations:
  "achieveFeatureValue k v agent = achieve_feature_value k v agent \<and>
   achieveGoal k agent invert = achieve_goal k agent invert"
  by (cases invert) (simp_all add: achieveFeatureValue_def achieveGoal_def achieve_goal_def
      invert_default_def)

section \<open>Legal actions in the prisoner's dilemma world\<close>

lemma agents_dec_nth:
  "agents_dec ! 0 = stateKey ''Agent 1'' ''decision''"
  "agents_dec ! 1 = stateKey ''Agent 2'' ''decision''"
  "agents_dec ! Suc 0 = stateKey ''Agent 2'' ''decision''"
  by (simp_all add: agents_dec_def agents_def)

lemma defect_legal_value:
  assumes "s (my_dec i) = Some (Sym mine)" and "s (other_dec i) = Some (Sym other)"
  shows "evaluate (defect_legal i) s = Inr (\<not> (other = COOPERATED \<and> mine \<noteq> DEFECTED))"
  using assms by (simp add: defect_legal_def)

lemma cooperate_legal_value:
  assumes "s (my_dec i) = Some (Sym mine)" and "s (other_dec i) = Some (Sym other)"
  shows "evaluate (cooperate_legal i) s = Inr (other \<noteq> DEFECTED \<and> mine \<noteq> DEFECTED)"
  using assms by (simp add: cooperate_legal_def)

lemma labels_distinct:
  "COOPERATED \<noteq> DEFECTED" "NOT_DECIDED \<noteq> DEFECTED" "NOT_DECIDED \<noteq> COOPERATED"
  by (simp_all add: COOPERATED_def DEFECTED_def NOT_DECIDED_def)

text \<open>
  C9. In the prisoner's dilemma world, for each of the two agents and every assignment of
  the two decision features to values among none, defected and cooperated, "defect" is
  legal unless the other agent has cooperated and the agent itself has not defected; in
  that case "cooperate" is legal. So one of the two legality trees is true at every such
  state, and the enumeration of legal actions never ends in
  \<^verbatim>\<open>IllegalActionError\<close>.
\<close>

theorem pd_some_action_legal:
  assumes "i < 2"
    and "s (my_dec i) = Some (Sym mine)"
    and "s (other_dec i) = Some (Sym other)"
    and "mine \<in> {NOT_DECIDED, DEFECTED, COOPERATED}"
    and "other \<in> {NOT_DECIDED, DEFECTED, COOPERATED}"
  shows "evaluate (defect_legal i) s = Inr (\<not> (other = COOPERATED \<and> mine \<noteq> DEFECTED))
    \<and> (other = COOPERATED \<and> mine \<noteq> DEFECTED \<longrightarrow> evaluate (cooperate_legal i) s = Inr True)
    \<and> (evaluate (defect_legal i) s = Inr True \<or> evaluate (cooperate_legal i) s = Inr True)
    \<and> (\<exists>as. legal_actions (pd_actions i) s = Inr as \<and> as \<noteq> []
          \<and> set as \<subseteq> {''defect'', ''cooperate''})"
proof -
  have d: "evaluate (defect_legal i) s = Inr (\<not> (other = COOPERATED \<and> mine \<noteq> DEFECTED))"
    using assms(2,3) by (rule defect_legal_value)
  have c: "evaluate (cooperate_legal i) s = Inr (other \<noteq> DEFECTED \<and> mine \<noteq> DEFECTED)"
    using assms(2,3) by (rule cooperate_legal_value)
  have one: "\<not> (other = COOPERATED \<and> mine \<noteq> DEFECTED) \<or> (other \<noteq> DEFECTED \<and> mine \<noteq> DEFECTED)"
    using labels_distinct(1) by blast
  have l: "\<exists>as. legal_actions (pd_actions i) s = Inr as \<and> as \<noteq> []
      \<and> set as \<subseteq> {''defect'', ''cooperate''}"
    using one by (auto simp add: legal_actions_def pd_actions_def d c)
  show ?thesis
    using d c one l labels_distinct(1) by auto
qed

theorem pd_some_action_legal_witness:
  "evaluate (defect_legal 0) (pd_state ''none'' ''cooperated'') = Inr False
   \<and> evaluate (cooperate_legal 0) (pd_state ''none'' ''cooperated'') = Inr True
   \<and> legal_actions (pd_actions 0) (pd_state ''none'' ''cooperated'') = Inr [''cooperate'']"
proof -
  have h1: "(0::nat) < 2" by simp
  have h2: "pd_state ''none'' ''cooperated'' (my_dec 0) = Some (Sym ''none'')"
    by (simp add: pd_state_def my_dec_def agents_dec_nth)
  have h3: "pd_state ''none'' ''cooperated'' (other_dec 0) = Some (Sym ''cooperated'')"
    by (simp add: pd_state_def other_dec_def agents_dec_nth)
  have h4: "''none'' \<in> {NOT_DECIDED, DEFECTED, COOPERATED}"
    by (simp add: NOT_DECIDED_def)
  have h5: "''cooperated'' \<in> {NOT_DECIDED, DEFECTED, COOPERATED}"
    by (simp add: COOPERATED_def)
  show ?thesis
    using pd_some_action_legal [OF h1 h2 h3 h4 h5]
    by (auto simp add: COOPERATED_def DEFECTED_def legal_actions_def pd_actions_def
        split: sum.splits if_splits)
qed

section \<open>The payoff matrix of the prisoner's dilemma world\<close>

text \<open>
  Once both agents have decided, the reward tree returns the entry of the payoff matrix
  for the two decisions, and before that the sentinel \<^verbatim>\<open>INVALID\<close>. In the matrix
  defecting pays strictly more than cooperating against either decision of the other.
\<close>

lemma reward_tree_undecided:
  assumes "s my_d = Some (Sym mine)" and "s other_d = Some (Sym other)"
    and "mine = NOT_DECIDED \<or> other = NOT_DECIDED"
  shows "evaluate (get_reward_tree name my_d other_d) s
           = Inr (setToConstantMatrix (rewardKey name) (Num INVALID))"
  using assms by (auto simp add: get_reward_tree_def Let_def)

lemma reward_tree_payoff:
  assumes "s my_d = Some (Sym mine)" and "s other_d = Some (Sym other)"
    and "mine \<in> {DEFECTED, COOPERATED}" and "other \<in> {DEFECTED, COOPERATED}"
  shows "evaluate (get_reward_tree name my_d other_d) s
           = Inr (setToConstantMatrix (rewardKey name)
                   (Num (if mine = COOPERATED
                         then (if other = COOPERATED then MUTUAL_COOP else SUCKER)
                         else (if other = COOPERATED then TEMPTATION else PUNISHMENT))))"
  using assms labels_distinct
  by (auto simp add: get_reward_tree_def Let_def)

lemma defect_dominates_in_matrix:
  "MUTUAL_COOP < TEMPTATION \<and> SUCKER < PUNISHMENT"
  by (simp add: MUTUAL_COOP_def TEMPTATION_def SUCKER_def PUNISHMENT_def)

section \<open>Facts about masses and totals\<close>



lemma total_mass_Cons: "total_mass ((x, p) # d) = p + total_mass d"
  by (simp add: total_mass_def)

lemma total_mass_Nil: "total_mass [] = 0"
  by (simp add: total_mass_def)


lemma keys_map_snd:
  "map fst (map (\<lambda>(x, p). (x, f x p)) d) = map fst d"
  by (induction d) auto

lemma total_mass_ge0:
  fixes d :: "'a Distribution"
  shows "list_all (\<lambda>(x, p). 0 \<le> p) d \<Longrightarrow> 0 \<le> total_mass d"
  by (induction d) (auto simp add: total_mass_Cons total_mass_Nil)

lemma total_mass_scale:
  fixes d :: "'a Distribution"
  shows "total_mass (map (\<lambda>(x, p). (x, p / c)) d) = total_mass d / c"
  by (induction d) (auto simp add: total_mass_def add_divide_distrib)

lemma scale_nonneg:
  fixes d :: "'a Distribution"
  assumes "list_all (\<lambda>(x, p). 0 \<le> p) d" and "0 < c"
  shows "list_all (\<lambda>(x, p). 0 \<le> p) (map (\<lambda>(x, p). (x, p / c)) d)"
  using assms by (induction d) (auto simp add: divide_nonneg_pos)

lemma no_negative_iff:
  fixes d :: "'a Distribution"
  shows "\<not> list_ex (\<lambda>(x, p). p < 0) d \<longleftrightarrow> list_all (\<lambda>(x, p). 0 \<le> p) d"
  by (induction d) (auto simp add: not_less)

section \<open>Normalization\<close>

text \<open>
  C5. For every Distribution, \<^verbatim>\<open>normalize()\<close> raises \<^verbatim>\<open>DomainError\<close>
  exactly when some mass is negative or the total mass is approximately zero, and it
  raises nothing else; when it succeeds, the masses of the result sum to 1 (here exactly,
  so also within \<open>1e-9\<close>), every mass is at least 0, and the outcomes are those of the
  input. The tolerance of "approximately zero" is any \<open>eps \<ge> 0\<close>.
\<close>

theorem normalize_sums_to_one:
  fixes d :: "'a Distribution"
  assumes "0 \<le> eps"
  shows "(normalize_dist eps d = Inl DomainError
           \<longleftrightarrow> list_ex (\<lambda>(x, p). p < 0) d \<or> approx_zero eps (total_mass d))
    \<and> (\<forall>e. normalize_dist eps d = Inl e \<longrightarrow> e = DomainError)
    \<and> (\<forall>d'. normalize_dist eps d = Inr d' \<longrightarrow>
          \<bar>total_mass d' - 1\<bar> \<le> 1 / 10 ^ 9 \<and> total_mass d' = 1
          \<and> list_all (\<lambda>(x, p). 0 \<le> p) d' \<and> map fst d' = map fst d)"
proof -
  have err: "normalize_dist eps d = Inl DomainError
       \<longleftrightarrow> list_ex (\<lambda>(x, p). p < 0) d \<or> approx_zero eps (total_mass d)"
    by (simp add: normalize_dist_def)
  have only: "\<forall>e. normalize_dist eps d = Inl e \<longrightarrow> e = DomainError"
    by (simp add: normalize_dist_def)
  have ok: "\<bar>total_mass d' - 1\<bar> \<le> 1 / 10 ^ 9 \<and> total_mass d' = 1
          \<and> list_all (\<lambda>(x, p). 0 \<le> p) d' \<and> map fst d' = map fst d"
    if r: "normalize_dist eps d = Inr d'" for d'
  proof -
    from r have nn: "list_all (\<lambda>(x, p). 0 \<le> p) d"
      and nz: "\<not> approx_zero eps (total_mass d)"
      and d': "d' = map (\<lambda>(x, p). (x, p / total_mass d)) d"
      by (auto simp add: normalize_dist_def no_negative_iff split: if_splits)
    from nz assms have "total_mass d \<noteq> 0" by (auto simp add: approx_zero_def)
    with total_mass_ge0 [OF nn] have pos: "0 < total_mass d" by simp
    have t: "total_mass d' = 1" using pos by (simp add: d' total_mass_scale)
    have k: "map fst d' = map fst d" unfolding d' by (rule keys_map_snd)
    have n: "list_all (\<lambda>(x, p). 0 \<le> p) d'" unfolding d' using nn pos by (rule scale_nonneg)
    show ?thesis using t k n by simp
  qed
  show ?thesis using err only ok by blast
qed

theorem normalize_sums_to_one_witness:
  "normalize_dist (1 / 10 ^ 9) [(''left'', 1), (''right'', 3)]
     = Inr [(''left'', 1 / 4), (''right'', 3 / 4)]
   \<and> total_mass [(''left'', 1 / 4), (''right'', 3 / 4)] = 1
   \<and> normalize_dist (1 / 10 ^ 9) [(''left'', - 1), (''right'', 3)] = Inl DomainError
   \<and> normalize_dist (1 / 10 ^ 9) [(''left'', 0), (''right'', 0)] = Inl DomainError"
proof -
  have h: "(0::real) \<le> 1 / 10 ^ 9" by simp
  have r: "normalize_dist (1 / 10 ^ 9) [(''left'', 1), (''right'', 3)]
     = Inr [(''left'', 1 / 4), (''right'', 3 / 4)]"
    by (simp add: normalize_dist_def approx_zero_def total_mass_def)
  have "total_mass [(''left'', 1 / 4), (''right'', 3 / 4)] = 1"
    using normalize_sums_to_one [OF h, of "[(''left'', 1), (''right'', 3)]"] r by simp
  moreover have "normalize_dist (1 / 10 ^ 9) [(''left'', - 1), (''right'', 3)] = Inl DomainError"
    using normalize_sums_to_one [OF h, of "[(''left'', - 1), (''right'', 3)]"] by simp
  moreover have "normalize_dist (1 / 10 ^ 9) [(''left'', 0), (''right'', 0)] = Inl DomainError"
    using normalize_sums_to_one [OF h, of "[(''left'', 0), (''right'', 0)]"]
    by (simp add: approx_zero_def total_mass_def)
  ultimately show ?thesis using r by simp
qed

section \<open>Repeated belief updates\<close>










section \<open>The softmax of the "distribution" policy\<close>

lemma softmax_weights_positive:
  "list_all (\<lambda>(a, w). 0 < w) (softmax_weights r vals)"
  by (induction vals) (auto simp add: softmax_weights_def)

lemma positive_total:
  fixes d :: "'a Distribution"
  assumes "list_all (\<lambda>(a, w). 0 < w) d" and "d \<noteq> []"
  shows "0 < total_mass d"
  using assms
proof (induction d)
  case Nil
  then show ?case by simp
next
  case (Cons e d)
  obtain a w where e: "e = (a, w)" by (cases e)
  from Cons.prems have w: "0 < w" and rest: "list_all (\<lambda>(a, w). 0 < w) d"
    by (simp_all add: e)
  show ?case
  proof (cases "d = []")
    case True
    with w show ?thesis by (simp add: e total_mass_Cons total_mass_Nil)
  next
    case False
    from Cons.IH [OF rest False] w show ?thesis by (simp add: e total_mass_Cons)
  qed
qed

lemma entry_below_total:
  fixes d :: "'a Distribution"
  assumes pos: "list_all (\<lambda>(a, w). 0 < w) d" and two: "2 \<le> length d"
    and mem: "(a, w) \<in> set d"
  shows "w < total_mass d"
proof -
  let ?r = "remove1 (a, w) d"
  have split: "total_mass d = w + total_mass ?r"
    unfolding total_mass_def using sum_list_map_remove1 [OF mem, of snd] by simp
  have "length ?r = length d - 1" using mem by (simp add: length_remove1)
  with two have ne: "?r \<noteq> []" by auto
  have "set ?r \<subseteq> set d" by (rule set_remove1_subset)
  with pos have "list_all (\<lambda>(a, w). 0 < w) ?r" by (auto simp add: list_all_iff)
  from positive_total [OF this ne] split show ?thesis by simp
qed

lemma mass_in_entries:
  assumes "a \<in> fst ` set d"
  shows "(a, mass d a) \<in> set d"
proof -
  from assms obtain p where "map_of d a = Some p"
    by (metis map_of_eq_None_iff not_None_eq)
  then show ?thesis by (simp add: mass_def map_of_SomeD)
qed

text \<open>
  C6. Under the selection policy \<^verbatim>\<open>"distribution"\<close> the planner returns, for any
  non-empty list of legal actions with their values and any rationality (in particular
  every rationality above 0), a Distribution in which each action has probability
  \<^verbatim>\<open>exp(rationality * value(a))\<close> divided by the sum of these weights: the masses
  sum to 1, every legal action has strictly positive mass, and with two or more legal
  actions none has mass 1, so the choice never collapses to a single action.
\<close>

theorem softmax_positive:
  fixes vals :: "('a \<times> real) list"
  assumes ne: "vals \<noteq> []"
  shows "0 < total_mass (softmax_weights r vals)
    \<and> softmax r vals
        = map (\<lambda>(a, v). (a, exp (r * v) / total_mass (softmax_weights r vals))) vals
    \<and> total_mass (softmax r vals) = 1
    \<and> (\<forall>a\<in>fst ` set vals. 0 < mass (softmax r vals) a)
    \<and> (2 \<le> length vals \<longrightarrow> (\<forall>a\<in>fst ` set vals. mass (softmax r vals) a < 1))"
proof -
  define W where "W = softmax_weights r vals"
  define Z where "Z = total_mass W"
  have Wpos: "list_all (\<lambda>(a, w). 0 < w) W" unfolding W_def by (rule softmax_weights_positive)
  have Wne: "W \<noteq> []" using ne by (simp add: W_def softmax_weights_def)
  have Zpos: "0 < Z" unfolding Z_def using Wpos Wne by (rule positive_total)
  have sm: "softmax r vals = map (\<lambda>(a, w). (a, w / Z)) W"
    by (simp add: softmax_def W_def Z_def)
  have form: "softmax r vals = map (\<lambda>(a, v). (a, exp (r * v) / Z)) vals"
    unfolding sm W_def softmax_weights_def by (induction vals) auto
  have tot: "total_mass (softmax r vals) = 1"
    unfolding sm using Zpos by (simp add: total_mass_scale Z_def)
  have keys: "fst ` set (softmax r vals) = fst ` set vals"
    unfolding form by force
  have entries: "\<exists>w. (a, w) \<in> set W \<and> p = w / Z" if "(a, p) \<in> set (softmax r vals)" for a p
    using that unfolding sm by auto
  have pos: "0 < mass (softmax r vals) a" if a: "a \<in> fst ` set vals" for a
  proof -
    from a keys have "(a, mass (softmax r vals) a) \<in> set (softmax r vals)"
      by (intro mass_in_entries) simp
    from entries [OF this] obtain w where w: "(a, w) \<in> set W"
      and m: "mass (softmax r vals) a = w / Z" by blast
    from w Wpos have "0 < w" by (auto simp add: list_all_iff)
    with Zpos show ?thesis by (simp add: m)
  qed
  have lt1: "mass (softmax r vals) a < 1" if a: "a \<in> fst ` set vals" and two: "2 \<le> length vals" for a
  proof -
    from a keys have "(a, mass (softmax r vals) a) \<in> set (softmax r vals)"
      by (intro mass_in_entries) simp
    from entries [OF this] obtain w where w: "(a, w) \<in> set W"
      and m: "mass (softmax r vals) a = w / Z" by blast
    have "2 \<le> length W" using two by (simp add: W_def softmax_weights_def)
    from entry_below_total [OF Wpos this w] have "w < Z" by (simp add: Z_def)
    with Zpos show ?thesis by (simp add: m)
  qed
  show ?thesis using Zpos form tot pos lt1 unfolding Z_def W_def by blast
qed

theorem softmax_positive_witness:
  "0 < mass (softmax (1 / 2) [(''defect'', 0), (''cooperate'', - 10000)]) ''cooperate''
   \<and> mass (softmax (1 / 2) [(''defect'', 0), (''cooperate'', - 10000)]) ''cooperate'' < 1
   \<and> total_mass (softmax (1 / 2) [(''defect'', 0), (''cooperate'', - 10000)]) = 1"
proof -
  have h: "[(''defect'', 0), (''cooperate'', - 10000 :: real)] \<noteq> []" by simp
  have m: "''cooperate'' \<in> fst ` set [(''defect'', 0), (''cooperate'', - 10000 :: real)]"
    by simp
  have l: "2 \<le> length [(''defect'', 0), (''cooperate'', - 10000 :: real)]" by simp
  show ?thesis
    using softmax_positive [OF h, of "1 / 2"] m l by blast
qed

lemma softmax_is_normalized_weights:
  fixes vals :: "('a \<times> real) list"
  assumes "vals \<noteq> []" and "0 \<le> eps" and "eps < total_mass (softmax_weights r vals)"
  shows "normalize_dist eps (softmax_weights r vals) = Inr (softmax r vals)"
proof -
  have "list_all (\<lambda>(a, w). 0 \<le> w) (softmax_weights r vals)"
    using softmax_weights_positive [of r vals] by (auto simp add: list_all_iff)
  then show ?thesis
    using assms by (simp add: normalize_dist_def no_negative_iff approx_zero_def softmax_def)
qed

end
